theory Spec2Isabelle
  imports Complex_Main "HOL-Library.Word" "HOL-Library.Product_Lexorder"
begin

section \<open>Data model (shared/models)\<close>

text \<open>
  Go's \<open>int\<close> is modelled as a 64-bit word read as two's complement (\<open>sint\<close>); Go's
  comparisons on it are the signed ones (\<open>word_sle\<close>, \<open>word_sless\<close>) and \<open>+\<close> wraps.
  A \<open>uuid.UUID\<close> is a natural number, \<open>uuid.Nil\<close> being 0. The canonical text of a
  UUID is fixed-width lower-case hexadecimal, so the lexicographic order of the texts is the
  numeric order of the values.
\<close>

type_synonym go_int = "64 word"
type_synonym uuid = nat

definition uuid_Nil :: uuid where
  "uuid_Nil = 0"

datatype UserLevel = LevelBronze | LevelSilver | LevelGold | LevelPlatinum

text \<open>The tiers in ascending order, to state monotonicity.\<close>

fun level_rank :: "UserLevel \<Rightarrow> nat" where
  "level_rank LevelBronze = 0"
| "level_rank LevelSilver = 1"
| "level_rank LevelGold = 2"
| "level_rank LevelPlatinum = 3"

text \<open>
  The string types of the models with their named constants; the \<open>Other\<close> constructor
  stands for a string that is none of the constants (the zero value being \<open>Other []\<close>).
\<close>

datatype UserRole = RoleBuyer | RoleSeller | RoleOther string

datatype BadgeType =
  BadgeFirstOrder | BadgeTopSeller | BadgeBigSpender | BadgeEarlyBird
  | BadgeReviewer | BadgeReferrer | BadgeOther string

datatype OrderStatus =
  OrderPending | OrderConfirmed | OrderProcessing | OrderShipped
  | OrderDelivered | OrderCancelled | OrderOther string

text \<open>
  The rows of the tables, with the fields the gamification and order code reads or writes.
  The generated row ids of XP transactions and badge awards and the timestamps are left
  out: no modelled statement reads them. Amounts of money are \<open>float64\<close> in the source
  and exact reals here (rounding is not modelled).
\<close>

record User =
  user_id :: uuid
  user_name :: string
  user_role :: UserRole
  user_level :: UserLevel
  total_xp :: go_int
  total_spent :: real
  total_sales :: real

record Badge =
  badge_id :: uuid
  badge_type :: BadgeType
  badge_name :: string
  xp_reward :: go_int

record UserBadge =
  ub_user_id :: uuid
  ub_badge_id :: uuid

record XPTransaction =
  xt_user_id :: uuid
  xt_amount :: go_int
  xt_reason :: string
  xt_reference :: string

record Product =
  product_id :: uuid
  seller_id :: uuid

record OrderItem =
  oi_order_id :: uuid
  oi_product_id :: uuid
  oi_quantity :: go_int
  oi_price :: real

record Order =
  order_id :: uuid
  buyer_id :: uuid
  total_amount :: real
  order_status :: OrderStatus
  order_notes :: string

section \<open>The relational store (shared/database)\<close>

text \<open>
  The store is the tables, each a list of rows in creation order, and a script of the
  outcomes of the write statements still to come: \<open>True\<close> at the head makes the next
  write statement fail (the store rejects it), an exhausted script lets every statement
  through. Queries return the stored rows.
\<close>

record DB =
  users :: "User list"
  badges :: "Badge list"
  user_badges :: "UserBadge list"
  xp_transactions :: "XPTransaction list"
  products :: "Product list"
  order_items :: "OrderItem list"
  orders :: "Order list"
  faults :: "bool list"

definition statement_ok :: "DB \<Rightarrow> bool" where
  "statement_ok d = (case faults d of [] \<Rightarrow> True | f # _ \<Rightarrow> \<not> f)"

definition next_statement :: "DB \<Rightarrow> DB" where
  "next_statement d = d\<lparr>faults := tl (faults d)\<rparr>"

text \<open>A write statement: its effect when the store accepts it, and whether it did.\<close>

definition write_statement :: "(DB \<Rightarrow> DB) \<Rightarrow> DB \<Rightarrow> bool \<times> DB" where
  "write_statement effect d =
     (if statement_ok d then (True, effect (next_statement d))
      else (False, next_statement d))"

text \<open>\<open>DB.First(&user, id)\<close>\<close>

definition find_user :: "DB \<Rightarrow> uuid \<Rightarrow> User option" where
  "find_user d uid = find (\<lambda>u. user_id u = uid) (users d)"

text \<open>\<open>DB.Create(&xpTransaction)\<close>\<close>

definition create_xp_transaction :: "XPTransaction \<Rightarrow> DB \<Rightarrow> bool \<times> DB" where
  "create_xp_transaction xt =
     write_statement (\<lambda>d. d\<lparr>xp_transactions := xp_transactions d @ [xt]\<rparr>)"

text \<open>\<open>DB.Model(&user).Update("total_xp", newXP)\<close>: the value is computed by the caller.\<close>

definition update_total_xp :: "uuid \<Rightarrow> go_int \<Rightarrow> DB \<Rightarrow> bool \<times> DB" where
  "update_total_xp uid v =
     write_statement (\<lambda>d. d\<lparr>users :=
        map (\<lambda>u. if user_id u = uid then u\<lparr>total_xp := v\<rparr> else u) (users d)\<rparr>)"

text \<open>
  \<open>UPDATE users SET total_xp = total_xp + ? WHERE id = ?\<close>: the sum is computed by the
  store on a \<open>bigint\<close> column, where an overflow is an error of the statement, not a
  wrap-around.
\<close>

definition bigint_add_ok :: "go_int \<Rightarrow> go_int \<Rightarrow> bool" where
  "bigint_add_ok a b = (- (2 ^ 63) \<le> sint a + sint b \<and> sint a + sint b < 2 ^ 63)"

definition increment_total_xp :: "uuid \<Rightarrow> go_int \<Rightarrow> DB \<Rightarrow> bool \<times> DB" where
  "increment_total_xp uid amount d =
     (if list_all (\<lambda>u. bigint_add_ok (total_xp u) amount)
           (filter (\<lambda>u. user_id u = uid) (users d))
      then write_statement (\<lambda>d. d\<lparr>users :=
             map (\<lambda>u. if user_id u = uid then u\<lparr>total_xp := total_xp u + amount\<rparr> else u)
               (users d)\<rparr>) d
      else (False, next_statement d))"

text \<open>\<open>DB.Model(&user).Update("level", newLevel)\<close>\<close>

definition update_level :: "uuid \<Rightarrow> UserLevel \<Rightarrow> DB \<Rightarrow> bool \<times> DB" where
  "update_level uid l =
     write_statement (\<lambda>d. d\<lparr>users :=
        map (\<lambda>u. if user_id u = uid then u\<lparr>user_level := l\<rparr> else u) (users d)\<rparr>)"

text \<open>\<open>DB.Create(&userBadge)\<close>: the table has no uniqueness constraint on its columns.\<close>

definition create_user_badge :: "UserBadge \<Rightarrow> DB \<Rightarrow> bool \<times> DB" where
  "create_user_badge ub =
     write_statement (\<lambda>d. d\<lparr>user_badges := user_badges d @ [ub]\<rparr>)"

section \<open>Level Resolver (gamification handlers)\<close>

definition calculateLevel :: "go_int \<Rightarrow> UserLevel" where
  "calculateLevel xp =
     (if word_sle 5000 xp then LevelPlatinum
      else if word_sle 1500 xp then LevelGold
      else if word_sle 500 xp then LevelSilver
      else LevelBronze)"

text \<open>
  The reference threshold function, written from the specification's words:
  Bronze on [0, 500), Silver on [500, 1500), Gold on [1500, 5000), Platinum from 5000 on.
\<close>

definition level_by_thresholds :: "int \<Rightarrow> UserLevel" where
  "level_by_thresholds x =
     (if 0 \<le> x \<and> x < 500 then LevelBronze
      else if 500 \<le> x \<and> x < 1500 then LevelSilver
      else if 1500 \<le> x \<and> x < 5000 then LevelGold
      else LevelPlatinum)"

section \<open>XP Ledger (gamification handlers)\<close>

datatype error =
  ValidationError | NotFound | InternalServerError | Unauthorized | Forbidden
  | CacheUnavailable

record AddXPRequest =
  req_user_id :: uuid
  req_amount :: go_int
  req_reason :: string
  req_reference :: string

record AddXPResponse =
  resp_user_id :: uuid
  old_xp :: go_int
  new_xp :: go_int
  xp_gained :: go_int
  old_level :: UserLevel
  new_level :: UserLevel
  leveled_up :: bool
  resp_transaction :: XPTransaction

text \<open>
  The handler \<open>AddXP\<close> on a parsed request body. The detached refresh of the leaderboard
  cache that it starts writes to the cache only (see \<open>updateLeaderboards\<close> below).
\<close>

definition AddXP :: "AddXPRequest \<Rightarrow> DB \<Rightarrow> (error + AddXPResponse) \<times> DB" where
  "AddXP req d =
     (if req_user_id req = uuid_Nil \<or> req_amount req = 0 \<or> req_reason req = []
      then (Inl ValidationError, d)
      else case find_user d (req_user_id req) of
        None \<Rightarrow> (Inl NotFound, d)
      | Some user \<Rightarrow>
          let xpTransaction = \<lparr>xt_user_id = req_user_id req, xt_amount = req_amount req,
                                 xt_reason = req_reason req, xt_reference = req_reference req\<rparr>;
              (created, d1) = create_xp_transaction xpTransaction d
          in if \<not> created then (Inl InternalServerError, d1)
             else
               let oldXP = total_xp user;
                   newXP = oldXP + req_amount req;
                   (updated, d2) = update_total_xp (user_id user) newXP d1
               in if \<not> updated then (Inl InternalServerError, d2)
                  else
                    let oldLevel = calculateLevel oldXP;
                        newLevel = calculateLevel newXP;
                        leveledUp = (newLevel \<noteq> oldLevel);
                        d3 = (if leveledUp then snd (update_level (user_id user) newLevel d2)
                              else d2)
                    in (Inr \<lparr>resp_user_id = req_user_id req, old_xp = oldXP, new_xp = newXP,
                              xp_gained = req_amount req, old_level = oldLevel,
                              new_level = newLevel, leveled_up = leveledUp,
                              resp_transaction = xpTransaction\<rparr>, d3))"

text \<open>
  \<open>awardXP\<close>, the helper of the Badge Engine: it has no result, and the outcome of
  neither of its two statements is looked at.
\<close>

definition awardXP :: "uuid \<Rightarrow> go_int \<Rightarrow> string \<Rightarrow> DB \<Rightarrow> DB" where
  "awardXP userID amount reason d =
     (let xpTransaction = \<lparr>xt_user_id = userID, xt_amount = amount,
                             xt_reason = reason, xt_reference = []\<rparr>;
          d1 = snd (create_xp_transaction xpTransaction d)
      in snd (increment_total_xp userID amount d1))"

section \<open>Badge Engine (gamification handlers)\<close>

text \<open>\<open>DB.First(&badgeInfo, badge.BadgeID)\<close>\<close>

definition find_badge :: "DB \<Rightarrow> uuid \<Rightarrow> Badge option" where
  "find_badge d bid = find (\<lambda>b. badge_id b = bid) (badges d)"

text \<open>
  The keys of the map \<open>existingBadgeTypes\<close>: the type of the badge of each award of the
  user. Where the badge row is not found, the source ignores the error and \<open>badgeInfo\<close>
  keeps its zero value, whose type is the empty string.
\<close>

definition existingBadgeTypes :: "DB \<Rightarrow> uuid \<Rightarrow> BadgeType list" where
  "existingBadgeTypes d uid =
     map (\<lambda>ub. case find_badge d (ub_badge_id ub) of
                  Some badgeInfo \<Rightarrow> badge_type badgeInfo
                | None \<Rightarrow> BadgeOther [])
       (filter (\<lambda>ub. ub_user_id ub = uid) (user_badges d))"

text \<open>\<open>SELECT count(*) FROM orders WHERE buyer_id = ?\<close>\<close>

definition order_count :: "DB \<Rightarrow> uuid \<Rightarrow> nat" where
  "order_count d uid = length (filter (\<lambda>ord. buyer_id ord = uid) (orders d))"

text \<open>
  The count over \<open>orders JOIN order_items JOIN products\<close> of the rows whose product is the
  seller's and whose order is delivered: one row per order item.
\<close>

definition delivered_sales_count :: "DB \<Rightarrow> uuid \<Rightarrow> nat" where
  "delivered_sales_count d uid =
     length (concat (map (\<lambda>ord. concat (map (\<lambda>item.
       filter (\<lambda>p. oi_order_id item = order_id ord \<and> oi_product_id item = product_id p
                    \<and> seller_id p = uid \<and> order_status ord = OrderDelivered)
         (products d)) (order_items d))) (orders d)))"

text \<open>The \<open>switch badge.Type\<close> of \<open>checkAndAwardBadges\<close>.\<close>

fun shouldAward :: "DB \<Rightarrow> User \<Rightarrow> BadgeType \<Rightarrow> bool" where
  "shouldAward d user BadgeFirstOrder = (1 \<le> order_count d (user_id user))"
| "shouldAward d user BadgeTopSeller = (10 \<le> delivered_sales_count d (user_id user))"
| "shouldAward d user BadgeBigSpender = (5000 \<le> total_spent user)"
| "shouldAward d user BadgeEarlyBird = (length (users d) \<le> 100)"
| "shouldAward d user BadgeReviewer = False"
| "shouldAward d user BadgeReferrer = False"
| "shouldAward d user (BadgeOther s) = False"

text \<open>
  The loop \<open>for _, badge := range badges\<close>: the map of the types already held is built
  once, before the loop; \<open>newBadges\<close> is the accumulator.
\<close>

fun award_each ::
  "User \<Rightarrow> BadgeType list \<Rightarrow> Badge list \<Rightarrow> UserBadge list \<Rightarrow> DB \<Rightarrow> UserBadge list \<times> DB" where
  "award_each user existing [] newBadges d = (newBadges, d)"
| "award_each user existing (badge # rest) newBadges d =
     (if badge_type badge \<in> set existing then award_each user existing rest newBadges d
      else if shouldAward d user (badge_type badge) then
        (let userBadge = \<lparr>ub_user_id = user_id user, ub_badge_id = badge_id badge\<rparr>;
             (created, d1) = create_user_badge userBadge d
         in if created then
              award_each user existing rest (newBadges @ [userBadge])
                (if word_sless 0 (xp_reward badge)
                 then awardXP (user_id user) (xp_reward badge) (''Badge: '' @ badge_name badge) d1
                 else d1)
            else award_each user existing rest newBadges d1)
      else award_each user existing rest newBadges d)"

definition checkAndAwardBadges :: "User \<Rightarrow> DB \<Rightarrow> UserBadge list \<times> DB" where
  "checkAndAwardBadges user d =
     award_each user (existingBadgeTypes d (user_id user)) (badges d) [] d"

text \<open>The handler \<open>CheckAndAwardBadges\<close>: it reads the user and runs the engine.\<close>

definition CheckAndAwardBadges :: "uuid \<Rightarrow> DB \<Rightarrow> (error + UserBadge list) \<times> DB" where
  "CheckAndAwardBadges uid d =
     (if uid = uuid_Nil then (Inl ValidationError, d)
      else case find_user d uid of
        None \<Rightarrow> (Inl NotFound, d)
      | Some user \<Rightarrow> (let (newBadges, d') = checkAndAwardBadges user d in (Inr newBadges, d')))"

section \<open>Reward paths of the order service (order handlers)\<close>

text \<open>The canonical text of a UUID, \<open>order.ID.String()\<close>.\<close>

definition hex_digits :: "nat \<Rightarrow> nat \<Rightarrow> string" where
  "hex_digits k n = map (\<lambda>i. ''0123456789abcdef'' ! ((n div 16 ^ (k - 1 - i)) mod 16)) [0..<k]"

definition uuid_String :: "uuid \<Rightarrow> string" where
  "uuid_String n =
     (let h = hex_digits 32 n
      in take 8 h @ ''-'' @ take 4 (drop 8 h) @ ''-'' @ take 4 (drop 12 h) @ ''-''
         @ take 4 (drop 16 h) @ ''-'' @ drop 20 h)"

text \<open>
  \<open>callGamificationService\<close>: the order service writes the XP transaction and the counter
  itself; it has no result, and the outcome of neither statement is looked at.
\<close>

definition callGamificationService :: "uuid \<Rightarrow> go_int \<Rightarrow> string \<Rightarrow> string \<Rightarrow> DB \<Rightarrow> DB" where
  "callGamificationService userID xpAmount reason reference d =
     (let xpTransaction = \<lparr>xt_user_id = userID, xt_amount = xpAmount,
                             xt_reason = reason, xt_reference = reference\<rparr>;
          d1 = snd (create_xp_transaction xpTransaction d)
      in snd (increment_total_xp userID xpAmount d1))"

text \<open>
  The existence check of \<open>checkAndAwardBadge\<close>:
  \<open>user_badges JOIN badges WHERE user_badges.user_id = ? AND badges.type = ?\<close>.
\<close>

definition has_badge_of_type :: "DB \<Rightarrow> uuid \<Rightarrow> BadgeType \<Rightarrow> bool" where
  "has_badge_of_type d uid t =
     list_ex (\<lambda>ub. ub_user_id ub = uid
                \<and> list_ex (\<lambda>b. badge_id b = ub_badge_id ub \<and> badge_type b = t) (badges d))
       (user_badges d)"

text \<open>The \<open>switch badgeType\<close> of \<open>checkAndAwardBadge\<close>: three rules, no other case.\<close>

fun order_shouldAward :: "DB \<Rightarrow> User \<Rightarrow> BadgeType \<Rightarrow> bool" where
  "order_shouldAward d user BadgeFirstOrder = (1 \<le> order_count d (user_id user))"
| "order_shouldAward d user BadgeTopSeller = (10 \<le> delivered_sales_count d (user_id user))"
| "order_shouldAward d user BadgeBigSpender = (5000 \<le> total_spent user)"
| "order_shouldAward d user t = False"

definition checkAndAwardBadge :: "uuid \<Rightarrow> BadgeType \<Rightarrow> DB \<Rightarrow> DB" where
  "checkAndAwardBadge userID badgeType d =
     (case find_user d userID of
        None \<Rightarrow> d
      | Some user \<Rightarrow>
          if has_badge_of_type d userID badgeType then d
          else case find (\<lambda>b. badge_type b = badgeType) (badges d) of
            None \<Rightarrow> d
          | Some badge \<Rightarrow>
              if order_shouldAward d user badgeType then
                (let userBadge = \<lparr>ub_user_id = userID, ub_badge_id = badge_id badge\<rparr>;
                     d1 = snd (create_user_badge userBadge d)
                 in if word_sless 0 (xp_reward badge)
                    then callGamificationService userID (xp_reward badge)
                           (''Badge: '' @ badge_name badge) [] d1
                    else d1)
              else d)"

definition awardFirstOrderXP :: "uuid \<Rightarrow> DB \<Rightarrow> DB" where
  "awardFirstOrderXP userID d =
     (if order_count d userID = 1
      then checkAndAwardBadge userID BadgeFirstOrder
             (callGamificationService userID 50 ''First Order'' [] d)
      else d)"

text \<open>
  An order as the handler holds it after \<open>Preload("Items.Product")\<close>: the row and its
  items, each with its product (the zero product where the row is missing).
\<close>

record LoadedOrder =
  lo_order :: Order
  lo_items :: "(OrderItem \<times> Product) list"

definition load_order :: "DB \<Rightarrow> uuid \<Rightarrow> LoadedOrder option" where
  "load_order d oid =
     (case find (\<lambda>ord. order_id ord = oid) (orders d) of
        None \<Rightarrow> None
      | Some ord \<Rightarrow>
          Some \<lparr>lo_order = ord,
                lo_items = map (\<lambda>item.
                  (item, case find (\<lambda>p. product_id p = oi_product_id item) (products d) of
                           Some p \<Rightarrow> p
                         | None \<Rightarrow> \<lparr>product_id = uuid_Nil, seller_id = uuid_Nil\<rparr>))
                  (filter (\<lambda>item. oi_order_id item = oid) (order_items d))\<rparr>)"

text \<open>
  Go's conversion \<open>int(x)\<close> of a \<open>float64\<close> drops the fraction (towards zero); the
  conversion of \<open>int\<close> to \<open>float64\<close> is \<open>sint\<close>. For a value outside the range of
  \<open>int\<close> Go leaves the result to the implementation; here it wraps.
\<close>

definition go_int_of_float :: "real \<Rightarrow> go_int" where
  "go_int_of_float x = word_of_int (if 0 \<le> x then \<lfloor>x\<rfloor> else \<lceil>x\<rceil>)"

definition saleAmount :: "OrderItem \<Rightarrow> real" where
  "saleAmount item = oi_price item * real_of_int (sint (oi_quantity item))"

text \<open>\<open>UPDATE users SET total_sales = total_sales + ? WHERE id = ?\<close>\<close>

definition increment_total_sales :: "uuid \<Rightarrow> real \<Rightarrow> DB \<Rightarrow> bool \<times> DB" where
  "increment_total_sales uid amount =
     write_statement (\<lambda>d. d\<lparr>users :=
        map (\<lambda>u. if user_id u = uid then u\<lparr>total_sales := total_sales u + amount\<rparr> else u)
          (users d)\<rparr>)"

text \<open>The first loop of \<open>processDeliveredOrder\<close>: seller statistics and seller XP.\<close>

fun reward_sellers :: "uuid \<Rightarrow> (OrderItem \<times> Product) list \<Rightarrow> DB \<Rightarrow> DB" where
  "reward_sellers oid [] d = d"
| "reward_sellers oid ((item, product) # rest) d =
     (let sellerID = seller_id product;
          d1 = snd (increment_total_sales sellerID (saleAmount item) d);
          xpAmount = go_int_of_float (saleAmount item / 100 * 10)
      in reward_sellers oid rest
           (if word_sless 0 xpAmount
            then callGamificationService sellerID xpAmount ''Product Sale'' (uuid_String oid) d1
            else d1))"

text \<open>The last loop of \<open>processDeliveredOrder\<close>: the top-seller check of every item's seller.\<close>

fun check_top_sellers :: "(OrderItem \<times> Product) list \<Rightarrow> DB \<Rightarrow> DB" where
  "check_top_sellers [] d = d"
| "check_top_sellers ((item, product) # rest) d =
     check_top_sellers rest (checkAndAwardBadge (seller_id product) BadgeTopSeller d)"

definition processDeliveredOrder :: "LoadedOrder \<Rightarrow> DB \<Rightarrow> DB" where
  "processDeliveredOrder ord d =
     (let oid = order_id (lo_order ord);
          d1 = reward_sellers oid (lo_items ord) d;
          buyerXP = go_int_of_float (total_amount (lo_order ord) / 100 * 5);
          d2 = (if word_sless 0 buyerXP
                then callGamificationService (buyer_id (lo_order ord)) buyerXP
                       ''Order Completed'' (uuid_String oid) d1
                else d1);
          d3 = checkAndAwardBadge (buyer_id (lo_order ord)) BadgeBigSpender d2
      in check_top_sellers (lo_items ord) d3)"

record UpdateOrderStatusRequest =
  usr_status :: OrderStatus
  usr_notes :: string

text \<open>\<open>DB.Save(&order)\<close>: the row of the order is written back.\<close>

definition save_order :: "Order \<Rightarrow> DB \<Rightarrow> bool \<times> DB" where
  "save_order ord =
     write_statement (\<lambda>d. d\<lparr>orders :=
        map (\<lambda>x. if order_id x = order_id ord then ord else x) (orders d)\<rparr>)"

fun valid_status :: "OrderStatus \<Rightarrow> bool" where
  "valid_status (OrderOther s) = False"
| "valid_status st = True"

text \<open>
  The handler \<open>UpdateOrderStatus\<close>, on the parsed order id, the \<open>user_id\<close> and
  \<open>user_role\<close> locals of the request (an absent \<open>user_id\<close> is \<open>None\<close>) and the parsed
  body. Its third result is the detached task it starts: the order handed to
  \<open>processDeliveredOrder\<close>, which runs after the handler has returned.
\<close>

definition UpdateOrderStatus ::
  "uuid \<Rightarrow> uuid option \<Rightarrow> UserRole \<Rightarrow> UpdateOrderStatusRequest \<Rightarrow> DB
     \<Rightarrow> (error + LoadedOrder) \<times> DB \<times> LoadedOrder option" where
  "UpdateOrderStatus orderID local_user_id userRole req d =
     (case local_user_id of
        None \<Rightarrow> (Inl Unauthorized, d, None)
      | Some userID \<Rightarrow>
          if \<not> valid_status (usr_status req) then (Inl ValidationError, d, None)
          else case load_order d orderID of
            None \<Rightarrow> (Inl NotFound, d, None)
          | Some ord \<Rightarrow>
              if userRole = RoleSeller then
                (if \<not> list_ex (\<lambda>(item, product). seller_id product = userID) (lo_items ord)
                 then (Inl Forbidden, d, None)
                 else
                   let row = (lo_order ord)\<lparr>order_status := usr_status req,
                                order_notes := (if usr_notes req \<noteq> [] then usr_notes req
                                                else order_notes (lo_order ord))\<rparr>;
                       ord' = ord\<lparr>lo_order := row\<rparr>;
                       (saved, d1) = save_order row d
                   in if \<not> saved then (Inl InternalServerError, d1, None)
                      else
                        (Inr (case load_order d1 orderID of Some r \<Rightarrow> r | None \<Rightarrow> ord'),
                         d1,
                         if usr_status req = OrderDelivered then Some ord' else None))
              else (Inl Forbidden, d, None))"

section \<open>Leaderboard cache (shared/redis)\<close>

text \<open>
  The cache server holds, for each leaderboard type, the ranked set
  \<open>leaderboard:<type>\<close> (member and score; the member is the text of the user id, kept
  here as the id) and the hash \<open>leaderboard:<type>:users\<close> of the JSON display fields
  of each member. The commands below are the server's, with its documented behaviour:
  a ranked set orders its members by score and, for equal scores, by the bytes of the
  member; range indices below zero count from the end of the set.
\<close>

record UserData =
  ud_name :: string
  ud_level :: UserLevel
  ud_badge_count :: go_int

record Leaderboard =
  zset :: "(uuid \<times> real) list"
  hash :: "(uuid \<times> UserData) list"

type_synonym Redis = "string \<Rightarrow> Leaderboard"

definition ZAdd :: "uuid \<Rightarrow> real \<Rightarrow> (uuid \<times> real) list \<Rightarrow> (uuid \<times> real) list" where
  "ZAdd member score z = (member, score) # filter (\<lambda>(m, s). m \<noteq> member) z"

definition HSet :: "uuid \<Rightarrow> UserData \<Rightarrow> (uuid \<times> UserData) list \<Rightarrow> (uuid \<times> UserData) list" where
  "HSet field v h = (field, v) # filter (\<lambda>(f, w). f \<noteq> field) h"

definition HGet :: "(uuid \<times> UserData) list \<Rightarrow> uuid \<Rightarrow> UserData option" where
  "HGet h field = map_of h field"

definition redis_range :: "int \<Rightarrow> int \<Rightarrow> 'a list \<Rightarrow> 'a list" where
  "redis_range start stop xs =
     (let len = int (length xs);
          start1 = (if start < 0 then len + start else start);
          stop1 = (if stop < 0 then len + stop else stop);
          start2 = (if start1 < 0 then 0 else start1)
      in if stop1 < start2 \<or> len \<le> start2 then []
         else let stop2 = (if len \<le> stop1 then len - 1 else stop1)
              in take (nat (stop2 - start2 + 1)) (drop (nat start2) xs))"

definition ZRevRangeWithScores :: "(uuid \<times> real) list \<Rightarrow> int \<Rightarrow> int \<Rightarrow> (uuid \<times> real) list" where
  "ZRevRangeWithScores z start stop =
     redis_range start stop (rev (sort_key (\<lambda>(m, s). (s, m)) z))"

text \<open>\<open>SetLeaderboardEntry\<close>, on a server that is reachable.\<close>

definition SetLeaderboardEntry :: "string \<Rightarrow> uuid \<Rightarrow> real \<Rightarrow> UserData \<Rightarrow> Redis \<Rightarrow> Redis" where
  "SetLeaderboardEntry leaderboardType userID score userData r =
     r(leaderboardType :=
         \<lparr>zset = ZAdd userID score (zset (r leaderboardType)),
          hash = HSet userID userData (hash (r leaderboardType))\<rparr>)"

record LeaderboardEntry =
  le_user_id :: uuid
  le_name :: string
  le_score :: real
  le_rank :: go_int
  le_level :: UserLevel
  le_badge_count :: go_int

text \<open>
  The loop \<open>for i, member := range members\<close> of \<open>GetLeaderboard\<close>: a member without
  display fields is skipped, the rank is the position in the range, and the entry's
  \<open>UserID\<close> is never assigned (it keeps the zero value).
\<close>

fun collect_entries ::
  "(uuid \<times> UserData) list \<Rightarrow> nat \<Rightarrow> (uuid \<times> real) list \<Rightarrow> LeaderboardEntry list" where
  "collect_entries h i [] = []"
| "collect_entries h i ((member, score) # rest) =
     (case HGet h member of
        None \<Rightarrow> collect_entries h (Suc i) rest
      | Some userData \<Rightarrow>
          \<lparr>le_user_id = uuid_Nil, le_name = ud_name userData, le_score = score,
           le_rank = of_nat i + 1, le_level = ud_level userData,
           le_badge_count = ud_badge_count userData\<rparr>
          # collect_entries h (Suc i) rest)"

text \<open>\<open>GetLeaderboard\<close>; the cache is \<open>None\<close> when the server cannot be reached.\<close>

definition GetLeaderboard :: "string \<Rightarrow> go_int \<Rightarrow> Redis option \<Rightarrow> error + LeaderboardEntry list" where
  "GetLeaderboard leaderboardType limit cache =
     (case cache of
        None \<Rightarrow> Inl CacheUnavailable
      | Some r \<Rightarrow>
          Inr (collect_entries (hash (r leaderboardType)) 0
                 (ZRevRangeWithScores (zset (r leaderboardType)) 0 (sint (limit - 1)))))"

section \<open>Leaderboards (gamification handlers)\<close>

definition updateLeaderboards :: "User \<Rightarrow> go_int \<Rightarrow> Redis \<Rightarrow> Redis" where
  "updateLeaderboards user newXP r =
     (let userData = \<lparr>ud_name = user_name user, ud_level = user_level user,
                        ud_badge_count = 0\<rparr>
      in if user_role user = RoleBuyer
         then SetLeaderboardEntry ''weekly_buyers'' (user_id user) (total_spent user) userData r
         else if user_role user = RoleSeller
         then SetLeaderboardEntry ''monthly_sellers'' (user_id user) (total_sales user) userData r
         else r)"

text \<open>
  The query \<open>ORDER BY <score> DESC LIMIT n\<close> of the fallback. The query names no second
  sort key, so the SQL engine is free in the order of rows with equal scores; the stable
  order (creation order) is taken here, and the parity theorem below assumes distinct
  scores. \<open>Limit(n)\<close> of the query builder adds a \<open>LIMIT\<close> clause for a positive \<open>n\<close>;
  for other values none is added here, and no theorem below depends on that case.
\<close>

definition sql_limit :: "go_int \<Rightarrow> 'a list \<Rightarrow> 'a list" where
  "sql_limit n rows = (if word_sless 0 n then take (unat n) rows else rows)"

definition order_by_desc :: "('a \<Rightarrow> real) \<Rightarrow> 'a list \<Rightarrow> 'a list" where
  "order_by_desc column rows = sort_key (\<lambda>row. - column row) rows"

definition generateBuyerLeaderboardFromDB :: "go_int \<Rightarrow> DB \<Rightarrow> LeaderboardEntry list" where
  "generateBuyerLeaderboardFromDB limit d =
     map (\<lambda>(i, user).
           \<lparr>le_user_id = user_id user, le_name = user_name user, le_score = total_spent user,
            le_rank = of_nat i + 1, le_level = user_level user, le_badge_count = 0\<rparr>)
       (enumerate 0 (sql_limit limit (order_by_desc total_spent
          (filter (\<lambda>u. user_role u = RoleBuyer) (users d)))))"

definition generateSellerLeaderboardFromDB :: "go_int \<Rightarrow> DB \<Rightarrow> LeaderboardEntry list" where
  "generateSellerLeaderboardFromDB limit d =
     map (\<lambda>(i, user).
           \<lparr>le_user_id = user_id user, le_name = user_name user, le_score = total_sales user,
            le_rank = of_nat i + 1, le_level = user_level user, le_badge_count = 0\<rparr>)
       (enumerate 0 (sql_limit limit (order_by_desc total_sales
          (filter (\<lambda>u. user_role u = RoleSeller) (users d)))))"

text \<open>
  The handlers, on the \<open>limit\<close> query parameter (\<open>None\<close> when it is absent or not a
  number, which \<open>QueryInt("limit", 10)\<close> turns into 10).
\<close>

definition GetBuyerLeaderboard :: "go_int option \<Rightarrow> Redis option \<Rightarrow> DB \<Rightarrow> LeaderboardEntry list" where
  "GetBuyerLeaderboard query cache d =
     (let requested = (case query of None \<Rightarrow> 10 | Some n \<Rightarrow> n);
          limit = (if word_sless 50 requested then 50 else requested)
      in case GetLeaderboard ''weekly_buyers'' limit cache of
           Inr entries \<Rightarrow> entries
         | Inl err \<Rightarrow> generateBuyerLeaderboardFromDB limit d)"

definition GetSellerLeaderboard :: "go_int option \<Rightarrow> Redis option \<Rightarrow> DB \<Rightarrow> LeaderboardEntry list" where
  "GetSellerLeaderboard query cache d =
     (let requested = (case query of None \<Rightarrow> 10 | Some n \<Rightarrow> n);
          limit = (if word_sless 50 requested then 50 else requested)
      in case GetLeaderboard ''monthly_sellers'' limit cache of
           Inr entries \<Rightarrow> entries
         | Inl err \<Rightarrow> generateSellerLeaderboardFromDB limit d)"

text \<open>
  The cache after the leaderboard refresh has run for every user of the store, on the
  current rows: the state in which cache and store hold the same user data.
\<close>

definition empty_cache :: Redis where
  "empty_cache = (\<lambda>leaderboardType. \<lparr>zset = [], hash = []\<rparr>)"

definition refreshed_cache :: "DB \<Rightarrow> Redis" where
  "refreshed_cache d = foldl (\<lambda>r user. updateLeaderboards user (total_xp user) r) empty_cache (users d)"




text \<open>A store with 51 buyers, of spends 0 to 50.\<close>

definition crowd :: DB where
  "crowd = \<lparr>users = map (\<lambda>i. \<lparr>user_id = Suc i, user_name = ''buyer'', user_role = RoleBuyer,
                                 user_level = LevelBronze, total_xp = 0,
                                 total_spent = real i, total_sales = 0\<rparr>) [0..<51],
            badges = [], user_badges = [], xp_transactions = [], products = [],
            order_items = [], orders = [], faults = []\<rparr>"

section \<open>Early-bird badge of the auth service (auth handlers)\<close>

text \<open>The auth service's own \<open>awardXP\<close>: it re-derives the level after the XP write.\<close>

definition auth_awardXP :: "uuid \<Rightarrow> go_int \<Rightarrow> string \<Rightarrow> DB \<Rightarrow> DB" where
  "auth_awardXP userID amount reason d =
     (let xpTransaction = \<lparr>xt_user_id = userID, xt_amount = amount,
                             xt_reason = reason, xt_reference = []\<rparr>;
          d1 = snd (create_xp_transaction xpTransaction d);
          d2 = snd (increment_total_xp userID amount d1)
      in case find_user d2 userID of
           None \<Rightarrow> d2
         | Some user \<Rightarrow>
             let newLevel = calculateLevel (total_xp user)
             in if newLevel \<noteq> user_level user
                then snd (update_level (user_id user) newLevel d2)
                else d2)"

definition checkEarlyBirdBadge :: "User \<Rightarrow> DB \<Rightarrow> DB" where
  "checkEarlyBirdBadge user d =
     (if length (users d) \<le> 100 then
        (case find (\<lambda>b. badge_type b = BadgeEarlyBird) (badges d) of
           None \<Rightarrow> d
         | Some badge \<Rightarrow>
             if list_ex (\<lambda>ub. ub_user_id ub = user_id user \<and> ub_badge_id ub = badge_id badge)
                  (user_badges d)
             then d
             else
               let userBadge = \<lparr>ub_user_id = user_id user, ub_badge_id = badge_id badge\<rparr>;
                   d1 = snd (create_user_badge userBadge d)
               in if word_sless 0 (xp_reward badge)
                  then auth_awardXP (user_id user) (xp_reward badge) ''Early Bird Badge'' d1
                  else d1)
      else d)"

section \<open>Badge awards by type, and runs of operations\<close>

text \<open>
  The rows of \<open>user_badges JOIN badges\<close> projected on (user id, badge type): what a list
  of awards holds, by type, under a catalog.
\<close>

definition award_keys :: "Badge list \<Rightarrow> UserBadge list \<Rightarrow> (uuid \<times> BadgeType) list" where
  "award_keys catalog awards =
     concat (map (\<lambda>ub. map (\<lambda>b. (ub_user_id ub, badge_type b))
                          (filter (\<lambda>b. badge_id b = ub_badge_id ub) catalog)) awards)"




text \<open>
  The operations that touch badge awards or XP, one request or detached task at a time,
  and \<open>Elsewhere\<close> for everything the other services do to the store: it replaces every
  table but the catalog and the awards (new users, orders, products, a new script of
  outcomes).
\<close>

datatype operation =
    CheckBadges uuid
  | AddXPRequested AddXPRequest
  | OrderBadgeCheck uuid BadgeType
  | FirstOrderPlaced uuid
  | DeliveredTask LoadedOrder
  | SignedUp User
  | Elsewhere DB

fun step :: "operation \<Rightarrow> DB \<Rightarrow> DB" where
  "step (CheckBadges uid) d = snd (CheckAndAwardBadges uid d)"
| "step (AddXPRequested req) d = snd (AddXP req d)"
| "step (OrderBadgeCheck uid t) d = checkAndAwardBadge uid t d"
| "step (FirstOrderPlaced uid) d = awardFirstOrderXP uid d"
| "step (DeliveredTask ord) d = processDeliveredOrder ord d"
| "step (SignedUp user) d = checkEarlyBirdBadge user d"
| "step (Elsewhere e) d = e\<lparr>badges := badges d, user_badges := user_badges d\<rparr>"

fun run :: "operation list \<Rightarrow> DB \<Rightarrow> DB" where
  "run [] d = d"
| "run (a # ops) d = run ops (step a d)"

section \<open>Ledger balance and example stores\<close>

text \<open>The balance of a user by the ledger: the sum of the amounts of the user's transactions.\<close>

definition ledger_sum :: "DB \<Rightarrow> uuid \<Rightarrow> go_int" where
  "ledger_sum d uid =
     sum_list (map xt_amount (filter (\<lambda>xt. xt_user_id xt = uid) (xp_transactions d)))"



text \<open>The badge catalog as \<open>seedBadges\<close> writes it.\<close>

definition seeded_badges :: "Badge list" where
  "seeded_badges =
     [\<lparr>badge_id = 101, badge_type = BadgeFirstOrder, badge_name = ''First Order'', xp_reward = 50\<rparr>,
      \<lparr>badge_id = 102, badge_type = BadgeTopSeller, badge_name = ''Top Seller'', xp_reward = 200\<rparr>,
      \<lparr>badge_id = 103, badge_type = BadgeBigSpender, badge_name = ''Big Spender'', xp_reward = 300\<rparr>,
      \<lparr>badge_id = 104, badge_type = BadgeEarlyBird, badge_name = ''Early Bird'', xp_reward = 100\<rparr>,
      \<lparr>badge_id = 105, badge_type = BadgeReviewer, badge_name = ''Reviewer'', xp_reward = 150\<rparr>,
      \<lparr>badge_id = 106, badge_type = BadgeReferrer, badge_name = ''Referrer'', xp_reward = 250\<rparr>]"

text \<open>
  A small store: the buyer Ann at 490 XP (Bronze) with one pending order of 500 for two
  units of a product of the seller Ben, the seeded catalog, and a ledger that accounts
  for Ann's balance.
\<close>

definition ann :: User where
  "ann = \<lparr>user_id = 1, user_name = ''Ann'', user_role = RoleBuyer, user_level = LevelBronze,
          total_xp = 490, total_spent = 500, total_sales = 0\<rparr>"

definition ben :: User where
  "ben = \<lparr>user_id = 2, user_name = ''Ben'', user_role = RoleSeller, user_level = LevelBronze,
          total_xp = 0, total_spent = 0, total_sales = 0\<rparr>"

definition shop :: DB where
  "shop = \<lparr>users = [ann, ben], badges = seeded_badges, user_badges = [],
           xp_transactions = [\<lparr>xt_user_id = 1, xt_amount = 490, xt_reason = ''Welcome'',
                                xt_reference = []\<rparr>],
           products = [\<lparr>product_id = 21, seller_id = 2\<rparr>],
           order_items = [\<lparr>oi_order_id = 31, oi_product_id = 21, oi_quantity = 2,
                           oi_price = 250\<rparr>],
           orders = [\<lparr>order_id = 31, buyer_id = 1, total_amount = 500,
                      order_status = OrderPending, order_notes = []\<rparr>],
           faults = []\<rparr>"

section \<open>What one delivered-order reward run adds\<close>

text \<open>
  The sale amount of a seller over the items of an order, the XP transactions of the
  sales (one per item whose XP amount is positive) and the order-completion transaction
  of the buyer (when its XP amount is positive).
\<close>

definition sales_of :: "uuid \<Rightarrow> (OrderItem \<times> Product) list \<Rightarrow> real" where
  "sales_of uid items =
     sum_list (map (\<lambda>(item, product). saleAmount item)
                 (filter (\<lambda>(item, product). seller_id product = uid) items))"

definition sale_transactions :: "uuid \<Rightarrow> (OrderItem \<times> Product) list \<Rightarrow> XPTransaction list" where
  "sale_transactions oid items =
     map (\<lambda>(item, product).
            \<lparr>xt_user_id = seller_id product,
             xt_amount = go_int_of_float (saleAmount item / 100 * 10),
             xt_reason = ''Product Sale'', xt_reference = uuid_String oid\<rparr>)
       (filter (\<lambda>(item, product). word_sless 0 (go_int_of_float (saleAmount item / 100 * 10)))
          items)"

definition completion_transactions :: "LoadedOrder \<Rightarrow> XPTransaction list" where
  "completion_transactions ord =
     (if word_sless 0 (go_int_of_float (total_amount (lo_order ord) / 100 * 5))
      then [\<lparr>xt_user_id = buyer_id (lo_order ord),
             xt_amount = go_int_of_float (total_amount (lo_order ord) / 100 * 5),
             xt_reason = ''Order Completed'',
             xt_reference = uuid_String (order_id (lo_order ord))\<rparr>]
      else [])"

text \<open>The example store after the order of Ann has been delivered once.\<close>

definition delivered_shop :: DB where
  "delivered_shop = \<lparr>users = [ann, ben\<lparr>total_sales := 500, total_xp := 50\<rparr>],
     badges = seeded_badges, user_badges = [],
     xp_transactions =
       [\<lparr>xt_user_id = 1, xt_amount = 490, xt_reason = ''Welcome'', xt_reference = []\<rparr>,
        \<lparr>xt_user_id = 2, xt_amount = 50, xt_reason = ''Product Sale'',
         xt_reference = uuid_String 31\<rparr>],
     products = [\<lparr>product_id = 21, seller_id = 2\<rparr>],
     order_items = [\<lparr>oi_order_id = 31, oi_product_id = 21, oi_quantity = 2, oi_price = 250\<rparr>],
     orders = [\<lparr>order_id = 31, buyer_id = 1, total_amount = 500,
                order_status = OrderDelivered, order_notes = []\<rparr>],
     faults = []\<rparr>"

section \<open>Properties of the Level Resolver\<close>

lemma calculateLevel_sint:
  "calculateLevel xp =
     (if 5000 \<le> sint xp then LevelPlatinum
      else if 1500 \<le> sint xp then LevelGold
      else if 500 \<le> sint xp then LevelSilver
      else LevelBronze)"
  by (simp add: calculateLevel_def word_sle_eq)

text \<open>
  C5. For every non-negative XP balance, \<open>calculateLevel\<close> agrees with the reference
  threshold function with inclusive lower bounds; a balance exactly on a lower bound
  (500, 1500, 5000) falls into the higher tier; and \<open>calculateLevel\<close> is monotonically
  non-decreasing in the balance.
\<close>

theorem calculateLevel_thresholds_monotone:
  "(0 \<le> sint x \<longrightarrow> calculateLevel x = level_by_thresholds (sint x))
   \<and> calculateLevel 500 = LevelSilver
   \<and> calculateLevel 1500 = LevelGold
   \<and> calculateLevel 5000 = LevelPlatinum
   \<and> (sint x \<le> sint y \<longrightarrow> level_rank (calculateLevel x) \<le> level_rank (calculateLevel y))"
  by (simp add: calculateLevel_sint level_by_thresholds_def)

text \<open>The balances 499 and 500 lie on the two sides of the Silver bound.\<close>

theorem calculateLevel_thresholds_monotone_witness:
  "0 \<le> sint (499 :: go_int) \<and> sint (499 :: go_int) \<le> sint (500 :: go_int)
   \<and> calculateLevel 499 = level_by_thresholds (sint (499 :: go_int))
   \<and> calculateLevel 499 = LevelBronze
   \<and> calculateLevel 500 = LevelSilver
   \<and> level_rank (calculateLevel 499) \<le> level_rank (calculateLevel 500)"
  using calculateLevel_thresholds_monotone [of 499 500]
  by (simp add: calculateLevel_sint level_by_thresholds_def)

section \<open>Properties of the XP Ledger\<close>

lemmas store_defs = write_statement_def statement_ok_def next_statement_def
  create_xp_transaction_def update_total_xp_def increment_total_xp_def update_level_def
  create_user_badge_def



section \<open>Stale levels, silent ledger failures, ledger and counter\<close>

lemmas example_defs = shop_def ann_def ben_def seeded_badges_def


lemma ledger_sum_frame [simp]:
  "ledger_sum (d\<lparr>users := us\<rparr>) uid = ledger_sum d uid"
  "ledger_sum (d\<lparr>faults := fs\<rparr>) uid = ledger_sum d uid"
  "ledger_sum (next_statement d) uid = ledger_sum d uid"
  by (simp_all add: ledger_sum_def next_statement_def)









text \<open>
  C2 at a failing input: Ann holds 490 XP at Bronze. The Badge Engine awards her the First
  Order and Early Bird badges, and the order service pays a first-order reward; both paths
  raise the balance past 500 and leave the stored level at Bronze, while the Level
  Resolver gives Silver for the new balance.
\<close>

theorem badge_and_order_rewards_leave_level_stale:
  "map (\<lambda>u. (total_xp u, user_level u, calculateLevel (total_xp u)))
      (users (snd (checkAndAwardBadges ann shop)))
     = [(640, LevelBronze, LevelSilver), (0, LevelBronze, LevelBronze)]
   \<and> map (\<lambda>u. (total_xp u, user_level u, calculateLevel (total_xp u)))
      (users (callGamificationService 1 50 ''First Order'' [] shop))
     = [(540, LevelBronze, LevelSilver), (0, LevelBronze, LevelBronze)]"
  by (simp add: checkAndAwardBadges_def existingBadgeTypes_def order_count_def awardXP_def
      callGamificationService_def Let_def store_defs bigint_add_ok_def calculateLevel_sint
      delivered_sales_count_def word_sless_alt
      example_defs)

text \<open>
  C8 at a failing input: the store rejects the ledger append of a badge reward (and of an
  order reward). Neither helper has a result to carry the error: the counter is still
  raised, no transaction is recorded, and the Badge Engine reports the badge as newly
  awarded.
\<close>

theorem rejected_ledger_append_is_not_surfaced:
  "xp_transactions (awardXP 1 50 ''Badge: First Order'' (shop\<lparr>faults := [True]\<rparr>))
     = xp_transactions shop
   \<and> map total_xp (users (awardXP 1 50 ''Badge: First Order'' (shop\<lparr>faults := [True]\<rparr>)))
     = [540, 0]
   \<and> xp_transactions (callGamificationService 1 25 ''Order Completed'' (uuid_String 31)
        (shop\<lparr>faults := [True]\<rparr>)) = xp_transactions shop
   \<and> map total_xp (users (callGamificationService 1 25 ''Order Completed'' (uuid_String 31)
        (shop\<lparr>faults := [True]\<rparr>))) = [515, 0]
   \<and> fst (checkAndAwardBadges ann (shop\<lparr>faults := [False, True]\<rparr>))
     = [\<lparr>ub_user_id = 1, ub_badge_id = 101\<rparr>, \<lparr>ub_user_id = 1, ub_badge_id = 104\<rparr>]
   \<and> xp_transactions (snd (checkAndAwardBadges ann (shop\<lparr>faults := [False, True]\<rparr>)))
     = xp_transactions shop
       @ [\<lparr>xt_user_id = 1, xt_amount = 100, xt_reason = ''Badge: Early Bird'', xt_reference = []\<rparr>]"
  by (simp add: checkAndAwardBadges_def existingBadgeTypes_def order_count_def awardXP_def
      callGamificationService_def Let_def store_defs bigint_add_ok_def
      delivered_sales_count_def word_sless_alt example_defs)

section \<open>Properties of the Badge Engine\<close>

subsection \<open>What the write statements leave alone\<close>



lemma create_xp_transaction_frame [simp]:
  "badges (snd (create_xp_transaction xt d)) = badges d"
  "user_badges (snd (create_xp_transaction xt d)) = user_badges d"
  "users (snd (create_xp_transaction xt d)) = users d"
  "orders (snd (create_xp_transaction xt d)) = orders d"
  "order_items (snd (create_xp_transaction xt d)) = order_items d"
  "products (snd (create_xp_transaction xt d)) = products d"
  "faults (snd (create_xp_transaction xt d)) = tl (faults d)"
  by (simp_all add: store_defs)

lemma increment_total_xp_frame [simp]:
  "badges (snd (increment_total_xp uid a d)) = badges d"
  "user_badges (snd (increment_total_xp uid a d)) = user_badges d"
  "xp_transactions (snd (increment_total_xp uid a d)) = xp_transactions d"
  "length (users (snd (increment_total_xp uid a d))) = length (users d)"
  "orders (snd (increment_total_xp uid a d)) = orders d"
  "order_items (snd (increment_total_xp uid a d)) = order_items d"
  "products (snd (increment_total_xp uid a d)) = products d"
  "faults (snd (increment_total_xp uid a d)) = tl (faults d)"
  by (simp_all add: store_defs)

lemma update_level_frame [simp]:
  "badges (snd (update_level uid l d)) = badges d"
  "user_badges (snd (update_level uid l d)) = user_badges d"
  "xp_transactions (snd (update_level uid l d)) = xp_transactions d"
  by (simp_all add: store_defs)

lemma update_total_xp_frame [simp]:
  "badges (snd (update_total_xp uid v d)) = badges d"
  "user_badges (snd (update_total_xp uid v d)) = user_badges d"
  "xp_transactions (snd (update_total_xp uid v d)) = xp_transactions d"
  by (simp_all add: store_defs)

lemma create_user_badge_frame [simp]:
  "badges (snd (create_user_badge ub d)) = badges d"
  "users (snd (create_user_badge ub d)) = users d"
  "xp_transactions (snd (create_user_badge ub d)) = xp_transactions d"
  "orders (snd (create_user_badge ub d)) = orders d"
  "order_items (snd (create_user_badge ub d)) = order_items d"
  "products (snd (create_user_badge ub d)) = products d"
  "faults (snd (create_user_badge ub d)) = tl (faults d)"
  "user_badges (snd (create_user_badge ub d)) =
     (if fst (create_user_badge ub d) then user_badges d @ [ub] else user_badges d)"
  "fst (create_user_badge ub d) = statement_ok d"
  by (simp_all add: store_defs)

lemma awardXP_frame [simp]:
  "badges (awardXP uid a reason d) = badges d"
  "user_badges (awardXP uid a reason d) = user_badges d"
  "length (users (awardXP uid a reason d)) = length (users d)"
  "orders (awardXP uid a reason d) = orders d"
  "order_items (awardXP uid a reason d) = order_items d"
  "products (awardXP uid a reason d) = products d"
  "faults (awardXP uid a reason d) = tl (tl (faults d))"
  by (simp_all add: awardXP_def Let_def)

lemma callGamificationService_frame [simp]:
  "badges (callGamificationService uid a reason ref d) = badges d"
  "user_badges (callGamificationService uid a reason ref d) = user_badges d"
  by (simp_all add: callGamificationService_def Let_def)

lemma auth_awardXP_frame [simp]:
  "badges (auth_awardXP uid a reason d) = badges d"
  "user_badges (auth_awardXP uid a reason d) = user_badges d"
  by (simp_all add: auth_awardXP_def Let_def split: option.splits)

lemma AddXP_frame [simp]:
  "badges (snd (AddXP req d)) = badges d"
  "user_badges (snd (AddXP req d)) = user_badges d"
  by (simp_all add: AddXP_def Let_def split_beta split: option.splits)

lemma shouldAward_same_rules:
  assumes "orders d' = orders d" "order_items d' = order_items d" "products d' = products d"
    "length (users d') = length (users d)"
    "user_id user' = user_id user" "total_spent user' = total_spent user"
  shows "shouldAward d' user' t = shouldAward d user t"
  using assms by (cases t) (simp_all add: order_count_def delivered_sales_count_def)

subsection \<open>Awards by type\<close>

lemma award_keys_append [simp]:
  "award_keys c (xs @ ys) = award_keys c xs @ award_keys c ys"
  by (simp add: award_keys_def)

lemma award_keys_Nil [simp]: "award_keys c [] = []"
  by (simp add: award_keys_def)










subsection \<open>The award loop\<close>

lemma shouldAward_after_write [simp]:
  "shouldAward (snd (create_user_badge ub d)) user t = shouldAward d user t"
  "shouldAward (awardXP uid a reason d) user t = shouldAward d user t"
  by (rule shouldAward_same_rules; simp)+





subsection \<open>Two invocations in sequence\<close>





subsection \<open>At most one award per user and badge type\<close>











lemma increment_total_sales_frame [simp]:
  "badges (snd (increment_total_sales uid a d)) = badges d"
  "user_badges (snd (increment_total_sales uid a d)) = user_badges d"
  by (simp_all add: increment_total_sales_def store_defs)

lemma reward_sellers_frame [simp]:
  "badges (reward_sellers oid items d) = badges d"
  "user_badges (reward_sellers oid items d) = user_badges d"
  by (induction items arbitrary: d) (auto simp: Let_def)








section \<open>Properties of the leaderboards\<close>

subsection \<open>Limits\<close>

lemma sint_pred:
  assumes "word_sless 0 (n :: 64 word)"
  shows "sint (n - 1) = sint n - 1"
proof -
  from assms have pos: "0 < sint n" by (simp add: word_sless_alt)
  have up: "sint n < 2 ^ 63" using sint_lt [of n] by simp
  have "n - 1 = word_of_int (sint n - 1)" by simp
  then have "sint (n - 1) = signed_take_bit 63 (sint n - 1)"
    by (simp only: sint_sbintrunc') simp
  also have "\<dots> = sint n - 1"
    by (rule signed_take_bit_int_eq_self) (use pos up in simp_all)
  finally show ?thesis .
qed

lemma unat_of_positive:
  assumes "word_sless 0 (n :: 64 word)"
  shows "unat n = nat (sint n)"
proof -
  from assms have pos: "0 < sint n" by (simp add: word_sless_alt)
  have up: "sint n < 2 ^ 63" using sint_lt [of n] by simp
  have "uint n = uint (word_of_int (sint n) :: 64 word)" by simp
  also have "\<dots> = take_bit 64 (sint n)" by (simp only: uint_word_of_int_eq) simp
  also have "\<dots> = sint n"
    by (rule take_bit_int_eq_self) (use pos up in simp_all)
  finally show ?thesis by (simp only: unat_eq_nat_uint)
qed

lemma redis_range_prefix:
  "0 \<le> k \<Longrightarrow> redis_range 0 k xs = take (nat k + 1) xs"
  by (auto simp: redis_range_def Let_def nat_add_distrib)

lemma redis_range_all: "redis_range 0 (- 1) xs = xs"
  by (auto simp: redis_range_def Let_def)

lemma top_of_ranked_set:
  assumes "word_sless 0 (n :: go_int)"
  shows "redis_range 0 (sint (n - 1)) xs = take (unat n) xs"
proof -
  from assms have pos: "0 < sint n" by (simp add: word_sless_alt)
  have "redis_range 0 (sint (n - 1)) xs = take (nat (sint n - 1) + 1) xs"
    using pos by (simp add: sint_pred [OF assms] redis_range_prefix)
  also have "nat (sint n - 1) + 1 = nat (sint n)" using pos by simp
  finally show ?thesis by (simp add: unat_of_positive [OF assms])
qed

subsection \<open>The cache after a refresh\<close>

lemma ZAdd_fresh:
  "member \<notin> fst ` set z \<Longrightarrow> ZAdd member score z = (member, score) # z"
  by (force simp: ZAdd_def filter_id_conv)

lemma HSet_fresh:
  "field \<notin> fst ` set h \<Longrightarrow> HSet field v h = (field, v) # h"
  by (force simp: HSet_def filter_id_conv)

lemma updateLeaderboards_buyers:
  "updateLeaderboards u x r ''weekly_buyers''
     = (if user_role u = RoleBuyer
        then \<lparr>zset = ZAdd (user_id u) (total_spent u) (zset (r ''weekly_buyers'')),
              hash = HSet (user_id u) \<lparr>ud_name = user_name u, ud_level = user_level u,
                                         ud_badge_count = 0\<rparr> (hash (r ''weekly_buyers''))\<rparr>
        else r ''weekly_buyers'')"
  by (simp add: updateLeaderboards_def SetLeaderboardEntry_def Let_def)


lemma refreshed_buyers:
  assumes "distinct (map user_id us)"
  shows "foldl (\<lambda>r user. updateLeaderboards user (total_xp user) r) empty_cache us ''weekly_buyers''
       = \<lparr>zset = rev (map (\<lambda>u. (user_id u, total_spent u))
                         (filter (\<lambda>u. user_role u = RoleBuyer) us)),
          hash = rev (map (\<lambda>u. (user_id u, \<lparr>ud_name = user_name u, ud_level = user_level u,
                                               ud_badge_count = 0\<rparr>))
                         (filter (\<lambda>u. user_role u = RoleBuyer) us))\<rparr>"
  using assms
proof (induction us rule: rev_induct)
  case Nil
  then show ?case by (simp add: empty_cache_def)
next
  case (snoc u us)
  then have fresh: "user_id u \<notin> user_id ` set us" and IH:
    "foldl (\<lambda>r user. updateLeaderboards user (total_xp user) r) empty_cache us ''weekly_buyers''
       = \<lparr>zset = rev (map (\<lambda>u. (user_id u, total_spent u))
                         (filter (\<lambda>u. user_role u = RoleBuyer) us)),
          hash = rev (map (\<lambda>u. (user_id u, \<lparr>ud_name = user_name u, ud_level = user_level u,
                                               ud_badge_count = 0\<rparr>))
                         (filter (\<lambda>u. user_role u = RoleBuyer) us))\<rparr>"
    by auto
  from fresh have
    "user_id u \<notin> fst ` set (rev (map (\<lambda>u. (user_id u, total_spent u))
                         (filter (\<lambda>u. user_role u = RoleBuyer) us)))"
    "user_id u \<notin> fst ` set (rev (map (\<lambda>u. (user_id u, \<lparr>ud_name = user_name u,
                          ud_level = user_level u, ud_badge_count = 0\<rparr>))
                         (filter (\<lambda>u. user_role u = RoleBuyer) us)))"
    by (auto simp: image_iff)
  then show ?case
    by (simp add: updateLeaderboards_buyers IH ZAdd_fresh HSet_fresh)
qed


subsection \<open>The order of the ranked set and of the query\<close>



subsection \<open>Entries\<close>

lemma collect_entries_length:
  "\<forall>m \<in> fst ` set ms. HGet h m \<noteq> None \<Longrightarrow> length (collect_entries h i ms) = length ms"
  by (induction h i ms rule: collect_entries.induct) auto

lemma collect_entries_bound: "length (collect_entries h i ms) \<le> length ms"
  by (induction h i ms rule: collect_entries.induct) (auto split: option.splits)




lemma capped_limit_positive:
  "word_sless 0 (n :: go_int) \<Longrightarrow> word_sless 0 (if word_sless 50 n then 50 else n)"
  by (simp add: word_sless_alt)







subsection \<open>The cap on the number of entries\<close>

lemma capped_limit_bound:
  assumes "word_sless 0 (n :: go_int)"
  shows "unat (if word_sless 50 n then 50 else n) \<le> 50"
proof (cases "word_sless 50 n")
  case True
  then show ?thesis by simp
next
  case False
  then have "sint n \<le> 50" by (simp add: word_sless_alt)
  then show ?thesis using False by (simp add: unat_of_positive [OF assms])
qed

lemma GetLeaderboard_length:
  assumes "word_sless 0 n" and "GetLeaderboard cat n cache = Inr es"
  shows "length es \<le> unat n"
proof -
  from assms(2) obtain r where "cache = Some r"
    and "es = collect_entries (hash (r cat)) 0
                (ZRevRangeWithScores (zset (r cat)) 0 (sint (n - 1)))"
    by (auto simp: GetLeaderboard_def split: option.splits)
  then have "length es \<le> length (ZRevRangeWithScores (zset (r cat)) 0 (sint (n - 1)))"
    by (simp add: collect_entries_bound)
  also have "\<dots> \<le> unat n"
    by (simp add: ZRevRangeWithScores_def top_of_ranked_set [OF assms(1)])
  finally show ?thesis .
qed

lemma positive_limit_at_most_50:
  assumes "word_sless 0 n"
  shows "length (GetBuyerLeaderboard (Some n) cache d) \<le> 50
         \<and> length (GetSellerLeaderboard (Some n) cache d) \<le> 50"
proof -
  let ?limit = "if word_sless 50 n then 50 else n"
  have lpos: "word_sless 0 ?limit" using assms by (rule capped_limit_positive)
  have lb: "unat ?limit \<le> 50" using assms by (rule capped_limit_bound)
  have db: "length (generateBuyerLeaderboardFromDB ?limit d) \<le> 50"
    "length (generateSellerLeaderboardFromDB ?limit d) \<le> 50"
    using lpos lb
    by (simp_all add: generateBuyerLeaderboardFromDB_def generateSellerLeaderboardFromDB_def
        sql_limit_def)
  have "length (GetBuyerLeaderboard (Some n) cache d) \<le> 50"
  proof (cases "GetLeaderboard ''weekly_buyers'' ?limit cache")
    case (Inl e)
    then show ?thesis using db by (simp add: GetBuyerLeaderboard_def Let_def)
  next
    case (Inr es)
    from GetLeaderboard_length [OF lpos Inr] lb have "length es \<le> 50" by simp
    with Inr show ?thesis by (simp add: GetBuyerLeaderboard_def Let_def)
  qed
  moreover have "length (GetSellerLeaderboard (Some n) cache d) \<le> 50"
  proof (cases "GetLeaderboard ''monthly_sellers'' ?limit cache")
    case (Inl e)
    then show ?thesis using db by (simp add: GetSellerLeaderboard_def Let_def)
  next
    case (Inr es)
    from GetLeaderboard_length [OF lpos Inr] lb have "length es \<le> 50" by simp
    with Inr show ?thesis by (simp add: GetSellerLeaderboard_def Let_def)
  qed
  ultimately show ?thesis ..
qed

lemma zero_limit_returns_all:
  assumes ids: "distinct (map user_id (users d))"
  shows "length (GetBuyerLeaderboard (Some 0) (Some (refreshed_cache d)) d)
       = length (filter (\<lambda>u. user_role u = RoleBuyer) (users d))"
proof -
  let ?B = "filter (\<lambda>u. user_role u = RoleBuyer) (users d)"
  let ?Z = "rev (map (\<lambda>u. (user_id u, total_spent u)) ?B)"
  let ?H = "rev (map (\<lambda>u. (user_id u, \<lparr>ud_name = user_name u, ud_level = user_level u,
                                            ud_badge_count = 0\<rparr>)) ?B)"
  let ?L = "rev (sort_key (\<lambda>(m, s). (s, m)) ?Z)"
  have cb: "refreshed_cache d ''weekly_buyers'' = \<lparr>zset = ?Z, hash = ?H\<rparr>"
    unfolding refreshed_cache_def by (rule refreshed_buyers [OF ids])
  have "fst ` set ?L = user_id ` set ?B" "fst ` set ?H = user_id ` set ?B"
    by (simp_all add: image_image)
  then have "\<forall>m \<in> fst ` set ?L. HGet ?H m \<noteq> None"
    unfolding HGet_def map_of_eq_None_iff by blast
  then have "length (collect_entries ?H 0 ?L) = length ?L"
    by (rule collect_entries_length)
  then show ?thesis
    by (simp add: GetBuyerLeaderboard_def GetLeaderboard_def Let_def cb word_sless_alt
        ZRevRangeWithScores_def redis_range_all)
qed

text \<open>
  C6 at a failing input: 51 buyers are in the store and in the refreshed cache, and the
  request asks for \<open>limit=0\<close>. The handler caps only values above 50, the cache is asked
  for the range from 0 to -1, which is the whole ranked set, and all 51 entries are
  returned.
\<close>

theorem zero_limit_returns_51_entries:
  "length (GetBuyerLeaderboard (Some 0) (Some (refreshed_cache crowd)) crowd) = 51"
proof -
  have "map user_id (users crowd) = map Suc [0..<51]"
    by (simp add: crowd_def o_def)
  then have ids: "distinct (map user_id (users crowd))"
    by (simp only: distinct_map) simp
  have "filter (\<lambda>u. user_role u = RoleBuyer) (users crowd) = users crowd"
    by (simp add: crowd_def filter_map o_def)
  with zero_limit_returns_all [OF ids] show ?thesis
    by (simp add: crowd_def)
qed

section \<open>Properties of the delivered-order rewards\<close>

lemma callGamificationService_accepted:
  assumes "faults d = []"
  shows "faults (callGamificationService uid a reason ref d) = []"
    and "xp_transactions (callGamificationService uid a reason ref d)
           = xp_transactions d @ [\<lparr>xt_user_id = uid, xt_amount = a, xt_reason = reason,
                                    xt_reference = ref\<rparr>]"
    and "map (\<lambda>u. (user_id u, total_sales u)) (users (callGamificationService uid a reason ref d))
           = map (\<lambda>u. (user_id u, total_sales u)) (users d)"
  using assms
  by (auto simp: callGamificationService_def Let_def store_defs)

lemma reward_sellers_accepted:
  assumes "faults d = []"
  shows "faults (reward_sellers oid items d) = []
         \<and> xp_transactions (reward_sellers oid items d)
             = xp_transactions d @ sale_transactions oid items
         \<and> map (\<lambda>u. (user_id u, total_sales u)) (users (reward_sellers oid items d))
             = map (\<lambda>(i, s). (i, s + sales_of i items))
                 (map (\<lambda>u. (user_id u, total_sales u)) (users d))"
  using assms
proof (induction items arbitrary: d)
  case Nil
  then show ?case by (simp add: sale_transactions_def sales_of_def)
next
  case (Cons a items)
  obtain item product where a: "a = (item, product)" by (cases a)
  let ?xp = "go_int_of_float (saleAmount item / 100 * 10)"
  define d1 where "d1 = snd (increment_total_sales (seller_id product) (saleAmount item) d)"
  define d2 where "d2 = (if word_sless 0 ?xp
      then callGamificationService (seller_id product) ?xp ''Product Sale'' (uuid_String oid) d1
      else d1)"
  have step: "reward_sellers oid (a # items) d = reward_sellers oid items d2"
    by (simp add: a d1_def d2_def Let_def)
  have f1: "faults d1 = []" and x1: "xp_transactions d1 = xp_transactions d"
    and u1: "map (\<lambda>u. (user_id u, total_sales u)) (users d1)
           = map (\<lambda>(i, s). (i, s + (if i = seller_id product then saleAmount item else 0)))
               (map (\<lambda>u. (user_id u, total_sales u)) (users d))"
    using Cons.prems by (auto simp: d1_def increment_total_sales_def store_defs)
  have f2: "faults d2 = []"
    and x2: "xp_transactions d2 = xp_transactions d @ sale_transactions oid [a]"
    and u2: "map (\<lambda>u. (user_id u, total_sales u)) (users d2)
           = map (\<lambda>u. (user_id u, total_sales u)) (users d1)"
    using callGamificationService_accepted [OF f1] x1 f1
    by (simp_all add: d2_def sale_transactions_def a)
  have st: "sale_transactions oid (a # items) = sale_transactions oid [a] @ sale_transactions oid items"
    by (simp add: sale_transactions_def)
  have so: "sales_of i (a # items)
      = (if i = seller_id product then saleAmount item else 0) + sales_of i items" for i
    by (simp add: sales_of_def a)
  from Cons.IH [OF f2] show ?case
    unfolding step by (simp add: x2 u2 u1 st so split_def o_def add.assoc)
qed

lemma checkAndAwardBadge_accepted:
  assumes "faults d = []"
  shows "faults (checkAndAwardBadge uid t d) = []
         \<and> (\<exists>rest. xp_transactions (checkAndAwardBadge uid t d) = xp_transactions d @ rest)
         \<and> map (\<lambda>u. (user_id u, total_sales u)) (users (checkAndAwardBadge uid t d))
             = map (\<lambda>u. (user_id u, total_sales u)) (users d)"
proof -
  have c: "faults (snd (create_user_badge ub d)) = []" for ub
    using assms by (simp add: store_defs)
  show ?thesis
    using assms callGamificationService_accepted [OF c]
    by (auto simp: checkAndAwardBadge_def Let_def store_defs split: option.splits)
qed

lemma check_top_sellers_accepted:
  assumes "faults d = []"
  shows "faults (check_top_sellers items d) = []
         \<and> (\<exists>rest. xp_transactions (check_top_sellers items d) = xp_transactions d @ rest)
         \<and> map (\<lambda>u. (user_id u, total_sales u)) (users (check_top_sellers items d))
             = map (\<lambda>u. (user_id u, total_sales u)) (users d)"
  using assms
proof (induction items arbitrary: d)
  case Nil
  then show ?case by simp
next
  case (Cons a items)
  obtain item product where a: "a = (item, product)" by (cases a)
  let ?d1 = "checkAndAwardBadge (seller_id product) BadgeTopSeller d"
  from checkAndAwardBadge_accepted [OF Cons.prems, of "seller_id product" BadgeTopSeller]
  obtain r1 where 1: "faults ?d1 = []" "xp_transactions ?d1 = xp_transactions d @ r1"
    "map (\<lambda>u. (user_id u, total_sales u)) (users ?d1)
       = map (\<lambda>u. (user_id u, total_sales u)) (users d)"
    by blast
  from Cons.IH [OF 1(1)] obtain r2 where 2: "faults (check_top_sellers items ?d1) = []"
    "xp_transactions (check_top_sellers items ?d1) = xp_transactions ?d1 @ r2"
    "map (\<lambda>u. (user_id u, total_sales u)) (users (check_top_sellers items ?d1))
       = map (\<lambda>u. (user_id u, total_sales u)) (users ?d1)"
    by blast
  show ?case unfolding a using 1 2 by simp
qed

lemma processDeliveredOrder_accepted:
  assumes "faults d = []"
  shows "(\<exists>rest. xp_transactions (processDeliveredOrder ord d)
            = xp_transactions d @ sale_transactions (order_id (lo_order ord)) (lo_items ord)
              @ completion_transactions ord @ rest)
         \<and> map (\<lambda>u. (user_id u, total_sales u)) (users (processDeliveredOrder ord d))
             = map (\<lambda>(i, s). (i, s + sales_of i (lo_items ord)))
                 (map (\<lambda>u. (user_id u, total_sales u)) (users d))"
proof -
  let ?oid = "order_id (lo_order ord)"
  let ?bxp = "go_int_of_float (total_amount (lo_order ord) / 100 * 5)"
  define d1 where "d1 = reward_sellers ?oid (lo_items ord) d"
  define d2 where "d2 = (if word_sless 0 ?bxp
      then callGamificationService (buyer_id (lo_order ord)) ?bxp ''Order Completed''
             (uuid_String ?oid) d1
      else d1)"
  define d3 where "d3 = checkAndAwardBadge (buyer_id (lo_order ord)) BadgeBigSpender d2"
  have p: "processDeliveredOrder ord d = check_top_sellers (lo_items ord) d3"
    by (simp add: processDeliveredOrder_def d1_def d2_def d3_def Let_def)
  from reward_sellers_accepted [OF assms, of ?oid "lo_items ord"]
  have 1: "faults d1 = []"
    "xp_transactions d1 = xp_transactions d @ sale_transactions ?oid (lo_items ord)"
    "map (\<lambda>u. (user_id u, total_sales u)) (users d1)
       = map (\<lambda>(i, s). (i, s + sales_of i (lo_items ord)))
           (map (\<lambda>u. (user_id u, total_sales u)) (users d))"
    by (simp_all add: d1_def)
  have 2: "faults d2 = []"
    "xp_transactions d2 = xp_transactions d1 @ completion_transactions ord"
    "map (\<lambda>u. (user_id u, total_sales u)) (users d2)
       = map (\<lambda>u. (user_id u, total_sales u)) (users d1)"
    using callGamificationService_accepted [OF 1(1)] 1(1)
    by (simp_all add: d2_def completion_transactions_def)
  from checkAndAwardBadge_accepted [OF 2(1), of "buyer_id (lo_order ord)" BadgeBigSpender]
  obtain r3 where 3: "faults d3 = []" "xp_transactions d3 = xp_transactions d2 @ r3"
    "map (\<lambda>u. (user_id u, total_sales u)) (users d3)
       = map (\<lambda>u. (user_id u, total_sales u)) (users d2)"
    unfolding d3_def by blast
  from check_top_sellers_accepted [OF 3(1), of "lo_items ord"]
  obtain r4 where 4:
    "xp_transactions (check_top_sellers (lo_items ord) d3) = xp_transactions d3 @ r4"
    "map (\<lambda>u. (user_id u, total_sales u)) (users (check_top_sellers (lo_items ord) d3))
       = map (\<lambda>u. (user_id u, total_sales u)) (users d3)"
    by blast
  have "xp_transactions (processDeliveredOrder ord d)
      = xp_transactions d @ sale_transactions ?oid (lo_items ord)
        @ completion_transactions ord @ (r3 @ r4)"
    by (simp add: p 4 3 2 1)
  moreover have "map (\<lambda>u. (user_id u, total_sales u)) (users (processDeliveredOrder ord d))
             = map (\<lambda>(i, s). (i, s + sales_of i (lo_items ord)))
                 (map (\<lambda>u. (user_id u, total_sales u)) (users d))"
    by (simp only: p 4 3 2 1)
  ultimately show ?thesis by blast
qed


lemma find_replaced:
  "find P xs = Some x \<Longrightarrow> P r \<Longrightarrow> find P (map (\<lambda>y. if P y then r else y) xs) = Some r"
  by (induction xs) (auto split: if_splits)

lemma order_tables_kept:
  "orders (callGamificationService uid a reason ref d) = orders d"
  "order_items (callGamificationService uid a reason ref d) = order_items d"
  "products (callGamificationService uid a reason ref d) = products d"
  "orders (checkAndAwardBadge uid t d) = orders d"
  "order_items (checkAndAwardBadge uid t d) = order_items d"
  "products (checkAndAwardBadge uid t d) = products d"
  by (simp_all add: callGamificationService_def checkAndAwardBadge_def Let_def store_defs
      split: option.splits)

lemma reward_sellers_tables:
  "orders (reward_sellers oid items d) = orders d
   \<and> order_items (reward_sellers oid items d) = order_items d
   \<and> products (reward_sellers oid items d) = products d"
  by (induction items arbitrary: d)
     (auto simp: Let_def order_tables_kept increment_total_sales_def store_defs)

lemma check_top_sellers_tables:
  "orders (check_top_sellers items d) = orders d
   \<and> order_items (check_top_sellers items d) = order_items d
   \<and> products (check_top_sellers items d) = products d"
  by (induction items arbitrary: d) (auto simp: order_tables_kept)

lemma processDeliveredOrder_tables:
  "orders (processDeliveredOrder ord d) = orders d"
  "order_items (processDeliveredOrder ord d) = order_items d"
  "products (processDeliveredOrder ord d) = products d"
  by (simp_all add: processDeliveredOrder_def Let_def check_top_sellers_tables
      order_tables_kept reward_sellers_tables)

lemma processDeliveredOrder_faults:
  assumes "faults d = []"
  shows "faults (processDeliveredOrder ord d) = []"
proof -
  have 1: "faults (reward_sellers (order_id (lo_order ord)) (lo_items ord) d) = []"
    using reward_sellers_accepted [OF assms] by blast
  let ?d1 = "reward_sellers (order_id (lo_order ord)) (lo_items ord) d"
  let ?d2 = "if word_sless 0 (go_int_of_float (total_amount (lo_order ord) / 100 * 5))
      then callGamificationService (buyer_id (lo_order ord))
             (go_int_of_float (total_amount (lo_order ord) / 100 * 5)) ''Order Completed''
             (uuid_String (order_id (lo_order ord))) ?d1
      else ?d1"
  have 2: "faults ?d2 = []"
    using callGamificationService_accepted(1) [OF 1] 1 by simp
  have 3: "faults (checkAndAwardBadge (buyer_id (lo_order ord)) BadgeBigSpender ?d2) = []"
    using checkAndAwardBadge_accepted [OF 2] by blast
  from check_top_sellers_accepted [OF 3, of "lo_items ord"]
  have "faults (check_top_sellers (lo_items ord)
          (checkAndAwardBadge (buyer_id (lo_order ord)) BadgeBigSpender ?d2)) = []"
    by blast
  then show ?thesis by (simp only: processDeliveredOrder_def Let_def)
qed

text \<open>
  C10. For an order that is already delivered, a call of UpdateOrderStatus by a seller of
  one of its items that sets the status to delivered again, with every statement accepted,
  succeeds and starts the delivered-order processing; that run adds to every user's
  total_sales the sale amounts of the order's items the user sells and appends the sale
  and order-completion XP transactions to the ledger; afterwards the order is still
  delivered with the same items and every statement is still accepted, so the next such
  call grants the rewards once more.
\<close>

theorem delivered_again_rewards_again:
  assumes loaded: "load_order d oid = Some ord"
    and delivered: "order_status (lo_order ord) = OrderDelivered"
    and seller: "list_ex (\<lambda>(item, product). seller_id product = uid) (lo_items ord)"
    and accepted: "faults d = []"
  shows "\<exists>resp d1 task.
           UpdateOrderStatus oid (Some uid) RoleSeller
             \<lparr>usr_status = OrderDelivered, usr_notes = notes\<rparr> d = (Inr resp, d1, Some task)
           \<and> (\<exists>rest. xp_transactions (processDeliveredOrder task d1)
                  = xp_transactions d @ sale_transactions oid (lo_items ord)
                    @ completion_transactions ord @ rest)
           \<and> map (\<lambda>u. (user_id u, total_sales u)) (users (processDeliveredOrder task d1))
               = map (\<lambda>u. (user_id u, total_sales u + sales_of (user_id u) (lo_items ord)))
                   (users d)
           \<and> faults (processDeliveredOrder task d1) = []
           \<and> (\<exists>ord'. load_order (processDeliveredOrder task d1) oid = Some ord'
                  \<and> order_status (lo_order ord') = OrderDelivered
                  \<and> lo_items ord' = lo_items ord)"
proof -
  let ?row = "(lo_order ord)\<lparr>order_status := OrderDelivered,
                order_notes := (if notes \<noteq> [] then notes else order_notes (lo_order ord))\<rparr>"
  let ?task = "ord\<lparr>lo_order := ?row\<rparr>"
  let ?d1 = "snd (save_order ?row d)"
  from loaded obtain row0 where row0: "find (\<lambda>x. order_id x = oid) (orders d) = Some row0"
    and ord: "lo_order ord = row0"
      "lo_items ord = map (\<lambda>item.
                  (item, case find (\<lambda>p. product_id p = oi_product_id item) (products d) of
                           Some p \<Rightarrow> p
                         | None \<Rightarrow> \<lparr>product_id = uuid_Nil, seller_id = uuid_Nil\<rparr>))
                  (filter (\<lambda>item. oi_order_id item = oid) (order_items d))"
    by (auto simp: load_order_def split: option.splits)
  from row0 have oid: "order_id (lo_order ord) = oid"
    by (auto simp: ord find_Some_iff)
  have saved: "fst (save_order r d)" for r
    using accepted by (simp add: save_order_def store_defs)
  have d1: "xp_transactions ?d1 = xp_transactions d" "users ?d1 = users d"
      "order_items ?d1 = order_items d" "products ?d1 = products d"
      "orders ?d1 = map (\<lambda>x. if order_id x = oid then ?row else x) (orders d)"
    using accepted by (simp_all add: save_order_def store_defs oid)
  have run: "\<exists>resp. UpdateOrderStatus oid (Some uid) RoleSeller
               \<lparr>usr_status = OrderDelivered, usr_notes = notes\<rparr> d
             = (Inr resp, ?d1, Some ?task)"
    using loaded seller saved
    by (simp add: UpdateOrderStatus_def Let_def split_beta)
  have acc1: "faults ?d1 = []" using accepted by (simp add: save_order_def store_defs)
  note p = processDeliveredOrder_accepted [OF acc1, of ?task]
  have ct: "completion_transactions ?task = completion_transactions ord"
    by (simp add: completion_transactions_def)
  from p obtain rest where rest: "xp_transactions (processDeliveredOrder ?task ?d1)
        = xp_transactions d @ sale_transactions oid (lo_items ord)
          @ completion_transactions ord @ rest"
    by (auto simp: oid ct d1)
  from p have sales: "map (\<lambda>u. (user_id u, total_sales u)) (users (processDeliveredOrder ?task ?d1))
               = map (\<lambda>u. (user_id u, total_sales u + sales_of (user_id u) (lo_items ord)))
                   (users d)"
    by (simp add: o_def d1)
  have f: "faults (processDeliveredOrder ?task ?d1) = []"
    by (rule processDeliveredOrder_faults [OF acc1])
  have "find (\<lambda>x. order_id x = oid)
          (map (\<lambda>x. if order_id x = oid then ?row else x) (orders d)) = Some ?row"
    by (rule find_replaced [OF row0]) (simp add: oid)
  then have "load_order (processDeliveredOrder ?task ?d1) oid
      = Some \<lparr>lo_order = ?row, lo_items = lo_items ord\<rparr>"
    by (simp add: load_order_def processDeliveredOrder_tables d1 ord(2))
  then have again: "\<exists>ord'. load_order (processDeliveredOrder ?task ?d1) oid = Some ord'
                  \<and> order_status (lo_order ord') = OrderDelivered
                  \<and> lo_items ord' = lo_items ord"
    by simp
  from run rest sales f again show ?thesis by blast
qed

text \<open>
  On the example store, where the order was delivered once and Ben's sales stand at 500,
  setting the status to delivered again brings them to 1000 and appends both reward
  transactions a second time.
\<close>

theorem delivered_again_rewards_again_witness:
  "(\<exists>ord. load_order delivered_shop 31 = Some ord
       \<and> order_status (lo_order ord) = OrderDelivered
       \<and> list_ex (\<lambda>(item, product). seller_id product = 2) (lo_items ord))
   \<and> faults delivered_shop = []
   \<and> map (\<lambda>u. (user_id u, total_sales u)) (users delivered_shop) = [(1, 0), (2, 500)]
   \<and> (\<exists>resp d1 task.
         UpdateOrderStatus 31 (Some 2) RoleSeller
           \<lparr>usr_status = OrderDelivered, usr_notes = []\<rparr> delivered_shop
           = (Inr resp, d1, Some task)
         \<and> map (\<lambda>u. (user_id u, total_sales u)) (users (processDeliveredOrder task d1))
             = [(1, 0), (2, 1000)]
         \<and> (\<exists>rest. xp_transactions (processDeliveredOrder task d1)
               = xp_transactions delivered_shop
                 @ [\<lparr>xt_user_id = 2, xt_amount = 50, xt_reason = ''Product Sale'',
                     xt_reference = uuid_String 31\<rparr>,
                    \<lparr>xt_user_id = 1, xt_amount = 25, xt_reason = ''Order Completed'',
                     xt_reference = uuid_String 31\<rparr>] @ rest))"
proof -
  let ?ord = "\<lparr>lo_order = \<lparr>order_id = 31, buyer_id = 1, total_amount = 500,
                order_status = OrderDelivered, order_notes = []\<rparr>,
              lo_items = [(\<lparr>oi_order_id = 31, oi_product_id = 21, oi_quantity = 2,
                             oi_price = 250\<rparr>, \<lparr>product_id = 21, seller_id = 2\<rparr>)]\<rparr>"
  have h: "load_order delivered_shop 31 = Some ?ord"
    "order_status (lo_order ?ord) = OrderDelivered"
    "list_ex (\<lambda>(item, product). seller_id product = 2) (lo_items ?ord)"
    "faults delivered_shop = []"
    by (simp_all add: load_order_def delivered_shop_def)
  have ev: "map (\<lambda>u. (user_id u, total_sales u)) (users delivered_shop) = [(1, 0), (2, 500)]"
    "map (\<lambda>u. (user_id u, total_sales u + sales_of (user_id u) (lo_items ?ord)))
       (users delivered_shop) = [(1, 0), (2, 1000)]"
    "sale_transactions 31 (lo_items ?ord)
       = [\<lparr>xt_user_id = 2, xt_amount = 50, xt_reason = ''Product Sale'',
            xt_reference = uuid_String 31\<rparr>]"
    "completion_transactions ?ord
       = [\<lparr>xt_user_id = 1, xt_amount = 25, xt_reason = ''Order Completed'',
            xt_reference = uuid_String 31\<rparr>]"
    by (simp_all add: delivered_shop_def ann_def ben_def sales_of_def saleAmount_def
        sale_transactions_def completion_transactions_def go_int_of_float_def word_sless_alt)
  from delivered_again_rewards_again [OF h, of "[]"] obtain resp d1 task rest where
    "UpdateOrderStatus 31 (Some 2) RoleSeller
        \<lparr>usr_status = OrderDelivered, usr_notes = []\<rparr> delivered_shop = (Inr resp, d1, Some task)"
    "xp_transactions (processDeliveredOrder task d1)
        = xp_transactions delivered_shop @ sale_transactions 31 (lo_items ?ord)
          @ completion_transactions ?ord @ rest"
    "map (\<lambda>u. (user_id u, total_sales u)) (users (processDeliveredOrder task d1))
        = map (\<lambda>u. (user_id u, total_sales u + sales_of (user_id u) (lo_items ?ord)))
            (users delivered_shop)"
    by blast
  then have "\<exists>resp d1 task.
         UpdateOrderStatus 31 (Some 2) RoleSeller
           \<lparr>usr_status = OrderDelivered, usr_notes = []\<rparr> delivered_shop
           = (Inr resp, d1, Some task)
         \<and> map (\<lambda>u. (user_id u, total_sales u)) (users (processDeliveredOrder task d1))
             = [(1, 0), (2, 1000)]
         \<and> (\<exists>rest. xp_transactions (processDeliveredOrder task d1)
               = xp_transactions delivered_shop
                 @ [\<lparr>xt_user_id = 2, xt_amount = 50, xt_reason = ''Product Sale'',
                     xt_reference = uuid_String 31\<rparr>,
                    \<lparr>xt_user_id = 1, xt_amount = 25, xt_reason = ''Order Completed'',
                     xt_reference = uuid_String 31\<rparr>] @ rest)"
    unfolding ev by (intro exI conjI) (assumption, assumption, simp)
  with h ev(1) show ?thesis by blast
qed

end
